theory Spec2Isabelle
  imports Complex_Main "HOL-Library.Word"
begin

section \<open>The XRotor foreign-function wrapper (\<open>xrotor/xrotor.py\<close>)\<close>

text \<open>
  The wrapper performs no aerodynamic computation. It copies a precompiled shared
  library to a temporary file, loads it, and forwards every request to it. The model
  therefore has three layers:
  \<^item> the operating system as far as the wrapper touches it: files, the names the
    temporary-file generator hands out, and the table of modules mapped into the process;
  \<^item> the native library: two configuration cells whose behaviour the specification
    fixes, and the opaque solver entry points, which are parameters of the model;
  \<^item> the Python class \<open>XRotor\<close>, translated statement by statement.
  Every raise of the source is an \<open>Inl\<close> result, and every function returns the state it
  leaves behind also when it raises.
\<close>

subsection \<open>Values and errors\<close>

type_synonym path = string
type_synonym handle = nat

text \<open>Exceptions of the interpreter and its libraries, with the message where the source gives one.\<close>

datatype error =
    ValueError string
  | AttributeError
  | IndexError
  | FileExistsError
  | FileNotFoundError
  | SameFileError
  | OSError
  | AccessViolation

text \<open>
  \<open>ctypes\<close> objects. \<open>c_int(v)\<close> keeps the low 32 bits of a Python integer without any
  overflow check; a function whose \<open>restype\<close> is the default \<open>c_int\<close> returns the signed
  reading. \<open>c_float(x)\<close> is the single-precision object built from \<open>x\<close>; its rounding is
  not modelled, the constructor only records which Python value was passed.
\<close>

type_synonym c_int = "32 word"

definition c_int :: "int \<Rightarrow> c_int" where
  "c_int v = word_of_int v"

definition c_int_value :: "c_int \<Rightarrow> int" where
  "c_int_value w = sint w"

datatype c_float = C_float real

text \<open>What \<open>operate\<close> returns: one residual, or the tuple of residual and blade angle change.\<close>

datatype op_result = Rms real | Rms_and_blade_angle_change real real

subsection \<open>The native library\<close>

text \<open>One entry per call that crosses the boundary; pointer arguments are recorded by the
  value they point to, \<open>None\<close> is the null pointer, and an output buffer by its capacity.\<close>

datatype native_call =
    Call_init
  | Call_get_print
  | Call_set_print bool
  | Call_get_max_iter
  | Call_set_max_iter c_int
  | Call_get_number_of_stations
  | Call_get_station_conditions c_int nat nat
  | Call_get_rms
  | Call_operate c_int c_float "c_int option" "c_float option"
  | Call_get_blade_angle_change
  | Call_show

record 'o native_state =
  ns_print :: bool
  ns_max_iter :: c_int
  ns_solver :: 'o

text \<open>
  The solver entry points are opaque: each is an arbitrary function of the library's
  state. \<open>sv_exports\<close> lists the symbols the library exports; a library need not export
  every entry point the wrapper asks for. \<open>sv_image\<close> is the state of a freshly mapped
  library. \<open>sv_get_station_conditions\<close> returns the values the library writes through its
  two output pointers, in order from the first element.
\<close>

record 'o solver =
  sv_exports :: "string list"
  sv_image :: "'o native_state"
  sv_init :: "'o native_state \<Rightarrow> c_int \<times> 'o native_state"
  sv_operate :: "c_int \<Rightarrow> c_float \<Rightarrow> c_int option \<Rightarrow> c_float option \<Rightarrow>
                 'o native_state \<Rightarrow> real \<times> 'o native_state"
  sv_get_blade_angle_change :: "'o native_state \<Rightarrow> real \<times> 'o native_state"
  sv_get_rms :: "'o native_state \<Rightarrow> real \<times> 'o native_state"
  sv_get_number_of_stations :: "'o native_state \<Rightarrow> c_int \<times> 'o native_state"
  sv_get_station_conditions :: "c_int \<Rightarrow> 'o native_state \<Rightarrow>
                 (real list \<times> real list) \<times> 'o native_state"
  sv_show :: "'o native_state \<Rightarrow> unit \<times> 'o native_state"

text \<open>Modelled from the spec: the native accessors of the print flag and of the maximum
  iteration count, which are compiled code outside the Python sources. "Get returns
  current value; set pushes a new value immediately".\<close>

definition native_get_print :: "'o native_state \<Rightarrow> bool \<times> 'o native_state" where
  "native_get_print n = (ns_print n, n)"

definition native_set_print :: "bool \<Rightarrow> 'o native_state \<Rightarrow> unit \<times> 'o native_state" where
  "native_set_print b n = ((), n\<lparr>ns_print := b\<rparr>)"

definition native_get_max_iter :: "'o native_state \<Rightarrow> c_int \<times> 'o native_state" where
  "native_get_max_iter n = (ns_max_iter n, n)"

definition native_set_max_iter :: "c_int \<Rightarrow> 'o native_state \<Rightarrow> unit \<times> 'o native_state" where
  "native_set_max_iter v n = ((), n\<lparr>ns_max_iter := v\<rparr>)"

subsection \<open>The operating system\<close>

datatype file_content = Empty_file | Shared_object | Other_file

text \<open>A module mapped into the process: the file it was loaded from, how many times it
  has been loaded and not yet freed, and its global data.\<close>

record 'o loaded_module =
  lm_path :: path
  lm_refs :: nat
  lm_state :: "'o native_state"

text \<open>
  \<open>tmp_dir\<close> tells whether \<open>tempfile\<close> finds a usable temporary directory, and
  \<open>tmp_names\<close> are the names its generator will try next. A handle is
  an index into \<open>modules\<close>; a freed slot is \<open>None\<close>. \<open>windll\<close> tells whether
  \<open>ctypes.windll\<close> exists (Windows). \<open>native_log\<close> lists the native calls made so far,
  each with the handle it went through.
\<close>

record 'o os =
  files :: "path \<rightharpoonup> file_content"
  tmp_dir :: bool
  tmp_names :: "string list"
  modules :: "'o loaded_module option list"
  windll :: bool
  native_log :: "(handle \<times> native_call) list"

text \<open>\<open>NamedTemporaryFile(mode='wb', delete=False, suffix=...)\<close> followed by \<open>close()\<close>.
  Without a usable temporary directory \<open>FileNotFoundError\<close> is raised. Otherwise
  the generator's names are tried in order, a name that exists is skipped, the first free
  one is created empty, and \<open>FileExistsError\<close> is raised when the names run out. The file
  stays, since \<open>delete\<close> is false.\<close>

definition named_temporary_file :: "string \<Rightarrow> 'o os \<Rightarrow> (error + path) \<times> 'o os" where
  "named_temporary_file suffix s =
     (if \<not> tmp_dir s then (Inl FileNotFoundError, s)
      else (case dropWhile (\<lambda>n. files s (n @ suffix) \<noteq> None) (tmp_names s) of
              [] \<Rightarrow> (Inl FileExistsError, s\<lparr>tmp_names := []\<rparr>)
            | n # ns \<Rightarrow> (Inr (n @ suffix),
                   s\<lparr>files := (files s)(n @ suffix \<mapsto> Empty_file), tmp_names := ns\<rparr>)))"

text \<open>\<open>shutil.copy2(src, dst)\<close>: the source must exist and must not be the destination
  itself; the destination gets the source's content.\<close>

definition copy2 :: "path \<Rightarrow> path \<Rightarrow> 'o os \<Rightarrow> (error + unit) \<times> 'o os" where
  "copy2 src dst s =
     (case files s src of
        None \<Rightarrow> (Inl FileNotFoundError, s)
      | Some c \<Rightarrow>
          (if src = dst then (Inl SameFileError, s)
           else (Inr (), s\<lparr>files := (files s)(dst \<mapsto> c)\<rparr>)))"

fun find_module :: "path \<Rightarrow> 'o loaded_module option list \<Rightarrow> handle option" where
  "find_module p [] = None"
| "find_module p (e # es) =
     (if (case e of None \<Rightarrow> False | Some m \<Rightarrow> lm_path m = p) then Some 0
      else map_option Suc (find_module p es))"

text \<open>\<open>cdll.LoadLibrary(p)\<close>: a path that is already mapped yields the handle it has,
  with one more reference; otherwise the file must be a shared object and is mapped into
  a new slot, in its initial state.\<close>

definition load_library :: "'o solver \<Rightarrow> path \<Rightarrow> 'o os \<Rightarrow> (error + handle) \<times> 'o os" where
  "load_library L p s =
     (case find_module p (modules s) of
        Some h \<Rightarrow>
          (Inr h, s\<lparr>modules := (modules s)
                     [h := map_option (\<lambda>m. m\<lparr>lm_refs := Suc (lm_refs m)\<rparr>) (modules s ! h)]\<rparr>)
      | None \<Rightarrow>
          (if files s p = Some Shared_object
           then (Inr (length (modules s)),
                 s\<lparr>modules := modules s @
                     [Some \<lparr>lm_path = p, lm_refs = 1, lm_state = sv_image L\<rparr>]\<rparr>)
           else (Inl OSError, s)))"

definition module_at :: "'o os \<Rightarrow> handle \<Rightarrow> 'o loaded_module option" where
  "module_at s h = (if h < length (modules s) then modules s ! h else None)"

text \<open>\<open>ctypes.windll.kernel32.FreeLibrary(handle)\<close>. Without \<open>windll\<close> the attribute
  lookup raises. With it, one reference is dropped and the module is unmapped with its
  last one; a handle that names no module is reported by the return value, not raised.\<close>

definition free_library :: "handle \<Rightarrow> 'o os \<Rightarrow> (error + unit) \<times> 'o os" where
  "free_library h s =
     (if \<not> windll s then (Inl AttributeError, s)
      else (case module_at s h of
              None \<Rightarrow> (Inr (), s)
            | Some m \<Rightarrow>
                (Inr (), s\<lparr>modules := (modules s)
                     [h := (if lm_refs m \<le> 1 then None
                            else Some (m\<lparr>lm_refs := lm_refs m - 1\<rparr>))]\<rparr>)))"

text \<open>\<open>os.remove(p)\<close>.\<close>

definition os_remove :: "path \<Rightarrow> 'o os \<Rightarrow> (error + unit) \<times> 'o os" where
  "os_remove p s =
     (case files s p of
        None \<Rightarrow> (Inl FileNotFoundError, s)
      | Some c \<Rightarrow> (Inr (), s\<lparr>files := (files s)(p := None)\<rparr>))"

subsection \<open>Module level of \<open>xrotor.py\<close>\<close>

text \<open>\<open>str.rfind\<close> for one character: the highest index, or \<open>-1\<close>.\<close>

fun rfind :: "string \<Rightarrow> char \<Rightarrow> int" where
  "rfind [] c = - 1"
| "rfind (x # xs) c =
     (let r = rfind xs c in if 0 \<le> r then r + 1 else if x = c then 0 else - 1)"

text \<open>The slice \<open>s[i:]\<close>; a negative start counts from the end and stops at the front.\<close>

definition slice_from :: "string \<Rightarrow> int \<Rightarrow> string" where
  "slice_from s i = (if i < 0 then drop (nat (int (length s) + i)) s else drop (nat i) s)"

record xrotor_module =
  lib_path :: path
  lib_ext :: string

text \<open>The two assignments executed on import. The argument is what
  \<open>glob.glob(os.path.join(here, 'libxrotor.*'))\<close> returned; indexing an empty list raises.\<close>

definition import_xrotor :: "path list \<Rightarrow> error + xrotor_module" where
  "import_xrotor matches =
     (case matches of
        [] \<Rightarrow> Inl IndexError
      | p # _ \<Rightarrow> Inr \<lparr>lib_path = p, lib_ext = slice_from p (rfind p CHR ''.'')\<rparr>)"

subsection \<open>The class \<open>XRotor\<close>\<close>

text \<open>An instance. \<open>self_lib\<close> is \<open>None\<close> once \<open>del self._lib\<close> has run; the object
  behind it is identified by the handle of the module it calls into.\<close>

record 'c session =
  self_lib :: "handle option"
  self_lib_path :: path
  self_case :: "'c option"

text \<open>A call \<open>self._lib.f(...)\<close>. Looking up \<open>_lib\<close> raises when the attribute is gone;
  calling into a module that is no longer mapped is a fault of the process, which the
  model reports as an error. Otherwise the native function runs on the module's state
  and the call is logged: \<open>native_step h m c n'\<close> is the process after call \<open>c\<close> through
  handle \<open>h\<close> has taken module \<open>m\<close> to the state \<open>n'\<close>. The lookup of the symbol \<open>f\<close>
  is \<open>entry_point\<close> below, placed where \<open>__init__\<close> makes it; the methods are modelled
  for a library that exports what they call.\<close>

definition native_step ::
  "handle \<Rightarrow> 'o loaded_module \<Rightarrow> native_call \<Rightarrow> 'o native_state \<Rightarrow> 'o os \<Rightarrow> 'o os" where
  "native_step h m c n' s =
     s\<lparr>modules := (modules s)[h := Some (m\<lparr>lm_state := n'\<rparr>)],
       native_log := native_log s @ [(h, c)]\<rparr>"

definition invoke ::
  "('o native_state \<Rightarrow> 'r \<times> 'o native_state) \<Rightarrow> native_call \<Rightarrow> 'c session \<Rightarrow> 'o os \<Rightarrow>
   (error + 'r) \<times> 'o os" where
  "invoke f c self s =
     (case self_lib self of
        None \<Rightarrow> (Inl AttributeError, s)
      | Some h \<Rightarrow>
          (case module_at s h of
             None \<Rightarrow> (Inl AccessViolation, s)
           | Some m \<Rightarrow>
               (case f (lm_state m) of (r, n') \<Rightarrow> (Inr r, native_step h m c n' s))))"

text \<open>Sequencing two statements: the second runs on the state the first left, unless the
  first raised.\<close>

definition and_then ::
  "(error + 'a) \<times> 's \<Rightarrow> ('a \<Rightarrow> 's \<Rightarrow> (error + 'b) \<times> 's) \<Rightarrow> (error + 'b) \<times> 's" where
  "and_then r k = (case r of (Inl e, s) \<Rightarrow> (Inl e, s) | (Inr a, s) \<Rightarrow> k a s)"

text \<open>An attribute access \<open>self._lib.f\<close>: \<open>ctypes\<close> resolves the symbol \<open>f\<close> in the loaded
  library and raises \<open>AttributeError\<close> when the library does not export it.\<close>

definition entry_point :: "'o solver \<Rightarrow> string \<Rightarrow> 's \<Rightarrow> (error + unit) \<times> 's" where
  "entry_point L f s =
     (if f \<in> set (sv_exports L) then (Inr (), s) else (Inl AttributeError, s))"

text \<open>\<open>XRotor.__init__\<close>. Each of the four \<open>restype\<close> assignments first resolves its
  entry point; the type it sets is the result type of the solver's entry point. The call
  \<open>init()\<close> resolves \<open>init\<close> and runs it; what it returns is dropped. \<open>self_case\<close> is
  \<open>None\<close> from the start: nothing reads it before the last statement assigns \<open>None\<close> to
  it.\<close>

definition XRotor_init ::
  "'o solver \<Rightarrow> xrotor_module \<Rightarrow> 'o os \<Rightarrow> (error + 'c session) \<times> 'o os" where
  "XRotor_init L g s =
     and_then (named_temporary_file (lib_ext g) s) (\<lambda>tmp s1.
     and_then (copy2 (lib_path g) tmp s1) (\<lambda>_ s2.
     and_then (load_library L tmp s2) (\<lambda>h s3.
     and_then (entry_point L ''get_print'' s3) (\<lambda>_ s3.
     and_then (entry_point L ''operate'' s3) (\<lambda>_ s3.
     and_then (entry_point L ''get_rms'' s3) (\<lambda>_ s3.
     and_then (entry_point L ''get_blade_angle_change'' s3) (\<lambda>_ s3.
     and_then (entry_point L ''init'' s3) (\<lambda>_ s3.
     let self = \<lparr>self_lib = Some h, self_lib_path = tmp, self_case = None\<rparr> in
     and_then (invoke (sv_init L) Call_init self s3) (\<lambda>_ s4. (Inr self, s4))))))))))"

text \<open>\<open>XRotor.__del__\<close>. Reading \<open>self._lib._handle\<close> raises when \<open>_lib\<close> is gone. The
  \<open>try\<close> swallows only \<open>AttributeError\<close>; the \<open>finally\<close> clause runs in every case, and an
  exception of its own replaces a pending one.\<close>

definition XRotor_del :: "'c session \<Rightarrow> 'o os \<Rightarrow> (error + unit) \<times> 'c session \<times> 'o os" where
  "XRotor_del self s =
     (case self_lib self of
        None \<Rightarrow> (Inl AttributeError, self, s)
      | Some handle \<Rightarrow>
          (let self' = self\<lparr>self_lib := None\<rparr>;
               (freed, s1) = free_library handle s;
               pending = (case freed of Inl AttributeError \<Rightarrow> Inr () | _ \<Rightarrow> freed);
               (removed, s2) = os_remove (self_lib_path self') s1
           in (case removed of Inl e \<Rightarrow> (Inl e, self', s2) | Inr _ \<Rightarrow> (pending, self', s2))))"

text \<open>The properties \<open>print\<close> and \<open>max_iter\<close>.\<close>

definition print_get :: "'c session \<Rightarrow> 'o os \<Rightarrow> (error + bool) \<times> 'o os" where
  "print_get self s = invoke native_get_print Call_get_print self s"

definition print_set :: "bool \<Rightarrow> 'c session \<Rightarrow> 'o os \<Rightarrow> (error + unit) \<times> 'o os" where
  "print_set v self s = invoke (native_set_print v) (Call_set_print v) self s"

definition max_iter_get :: "'c session \<Rightarrow> 'o os \<Rightarrow> (error + int) \<times> 'o os" where
  "max_iter_get self s =
     and_then (invoke native_get_max_iter Call_get_max_iter self s)
       (\<lambda>w s1. (Inr (c_int_value w), s1))"

definition max_iter_set :: "int \<Rightarrow> 'c session \<Rightarrow> 'o os \<Rightarrow> (error + unit) \<times> 'o os" where
  "max_iter_set v self s =
     invoke (native_set_max_iter (c_int v)) (Call_set_max_iter (c_int v)) self s"

text \<open>\<open>XRotor.operate\<close>, branch by branch.\<close>

definition operate ::
  "'o solver \<Rightarrow> real option \<Rightarrow> real option \<Rightarrow> real option \<Rightarrow> real option \<Rightarrow>
   'c session \<Rightarrow> 'o os \<Rightarrow> (error + op_result) \<times> 'o os" where
  "operate L thrust torque power' rpm self s =
     (if thrust \<noteq> None \<and> torque \<noteq> None \<and> power' \<noteq> None then
        (Inl (ValueError ''Thrust, torque, and power cannot be specified simultaneously.''), s)
      else if thrust \<noteq> None \<and> torque \<noteq> None then
        (Inl (ValueError ''Thrust and torque cannot be specified simultaneously.''), s)
      else if thrust \<noteq> None \<and> power' \<noteq> None then
        (Inl (ValueError ''Thrust and power cannot be specified simultaneously.''), s)
      else if thrust \<noteq> None then
        (if rpm \<noteq> None then
           and_then (invoke (sv_operate L (c_int 1) (C_float (the thrust))
                               (Some (c_int 1)) (Some (C_float (the rpm))))
                       (Call_operate (c_int 1) (C_float (the thrust))
                               (Some (c_int 1)) (Some (C_float (the rpm)))) self s) (\<lambda>rms s1.
           and_then (invoke (sv_get_blade_angle_change L) Call_get_blade_angle_change self s1)
             (\<lambda>blade_angle_change s2. (Inr (Rms_and_blade_angle_change rms blade_angle_change), s2)))
         else
           and_then (invoke (sv_operate L (c_int 1) (C_float (the thrust)) (Some (c_int 2)) None)
                       (Call_operate (c_int 1) (C_float (the thrust)) (Some (c_int 2)) None)
                       self s) (\<lambda>rms s1. (Inr (Rms rms), s1)))
      else if torque \<noteq> None then
        (if rpm \<noteq> None then
           and_then (invoke (sv_operate L (c_int 2) (C_float (the torque))
                               (Some (c_int 1)) (Some (C_float (the rpm))))
                       (Call_operate (c_int 2) (C_float (the torque))
                               (Some (c_int 1)) (Some (C_float (the rpm)))) self s) (\<lambda>rms s1.
           and_then (invoke (sv_get_blade_angle_change L) Call_get_blade_angle_change self s1)
             (\<lambda>blade_angle_change s2. (Inr (Rms_and_blade_angle_change rms blade_angle_change), s2)))
         else
           and_then (invoke (sv_operate L (c_int 2) (C_float (the torque)) (Some (c_int 2)) None)
                       (Call_operate (c_int 2) (C_float (the torque)) (Some (c_int 2)) None)
                       self s) (\<lambda>rms s1. (Inr (Rms rms), s1)))
      else if power' \<noteq> None then
        (if rpm \<noteq> None then
           and_then (invoke (sv_operate L (c_int 3) (C_float (the power'))
                               (Some (c_int 1)) (Some (C_float (the rpm))))
                       (Call_operate (c_int 3) (C_float (the power'))
                               (Some (c_int 1)) (Some (C_float (the rpm)))) self s) (\<lambda>rms s1.
           and_then (invoke (sv_get_blade_angle_change L) Call_get_blade_angle_change self s1)
             (\<lambda>blade_angle_change s2. (Inr (Rms_and_blade_angle_change rms blade_angle_change), s2)))
         else
           and_then (invoke (sv_operate L (c_int 3) (C_float (the power')) (Some (c_int 2)) None)
                       (Call_operate (c_int 3) (C_float (the power')) (Some (c_int 2)) None)
                       self s) (\<lambda>rms s1. (Inr (Rms rms), s1)))
      else if rpm \<noteq> None then
        and_then (invoke (sv_operate L (c_int 4) (C_float (the rpm)) None None)
                    (Call_operate (c_int 4) (C_float (the rpm)) None None) self s)
          (\<lambda>rms s1. (Inr (Rms rms), s1))
      else
        (Inl (ValueError ''Neither thrust, torque, power, or rpm was provided.''), s))"

text \<open>\<open>np.zeros(n, dtype=c_float, order='F')\<close>: a negative length raises.\<close>

definition np_zeros :: "int \<Rightarrow> error + real list" where
  "np_zeros n =
     (if n < 0 then Inl (ValueError ''negative dimensions are not allowed'')
      else Inr (replicate (nat n) 0))"

text \<open>What a buffer holds after the library wrote \<open>vals\<close> from its first element on.
  An array keeps its length whatever is written; values that do not fit are left out of
  the model (in the process they would land outside the array).\<close>

definition write_buffer :: "real list \<Rightarrow> real list \<Rightarrow> real list" where
  "write_buffer buf vals = take (length buf) vals @ drop (length vals) buf"

text \<open>The property \<open>station_conditions\<close>.\<close>

definition station_conditions ::
  "'o solver \<Rightarrow> 'c session \<Rightarrow> 'o os \<Rightarrow> (error + real list \<times> real list) \<times> 'o os" where
  "station_conditions L self s =
     and_then (invoke (sv_get_number_of_stations L) Call_get_number_of_stations self s) (\<lambda>w s1.
     let n = c_int_value w in
     and_then (np_zeros n, s1) (\<lambda>xi s2.
     and_then (np_zeros n, s2) (\<lambda>re s3.
     and_then (invoke (sv_get_station_conditions L (c_int n))
                 (Call_get_station_conditions (c_int n) (length xi) (length re)) self s3)
       (\<lambda>written s4.
          (Inr (write_buffer xi (fst written), write_buffer re (snd written)), s4)))))"

text \<open>The property \<open>rms\<close> and the method \<open>print_case\<close>. The properties \<open>case\<close> and
  \<open>performance\<close> marshal objects of the module \<open>model\<close>, whose source is not at hand; they
  are left out.\<close>

definition rms_get :: "'o solver \<Rightarrow> 'c session \<Rightarrow> 'o os \<Rightarrow> (error + real) \<times> 'o os" where
  "rms_get L self s = invoke (sv_get_rms L) Call_get_rms self s"

definition print_case :: "'o solver \<Rightarrow> 'c session \<Rightarrow> 'o os \<Rightarrow> (error + unit) \<times> 'o os" where
  "print_case L self s = invoke (sv_show L) Call_show self s"

subsection \<open>The specification's vocabulary\<close>

text \<open>The three primary targets and the mode selector the specification assigns to each
  (1 = thrust, 2 = torque, 3 = power; 4 is the direct evaluation at a given rpm).
  \<open>only k' k v\<close> is the argument for target \<open>k'\<close> in a call that supplies the value
  \<open>v\<close> for target \<open>k\<close> and no other primary target.\<close>

datatype primary = Thrust | Torque | Power

fun selector :: "primary \<Rightarrow> int" where
  "selector Thrust = 1"
| "selector Torque = 2"
| "selector Power = 3"

definition only :: "primary \<Rightarrow> primary \<Rightarrow> real \<Rightarrow> real option" where
  "only k' k v = (if k' = k then Some v else None)"

text \<open>The module a session calls into, if its \<open>_lib\<close> attribute is bound to a handle
  and that handle names a mapped module. Such a session is called live below.\<close>

definition module_of :: "'c session \<Rightarrow> 'o os \<Rightarrow> 'o loaded_module option" where
  "module_of self s = (case self_lib self of None \<Rightarrow> None | Some h \<Rightarrow> module_at s h)"

text \<open>The entry points \<open>__init__\<close> resolves, in the order of its statements.\<close>

definition constructor_entry_points :: "string list" where
  "constructor_entry_points =
     [''get_print'', ''operate'', ''get_rms'', ''get_blade_angle_change'', ''init'']"

text \<open>A session is open in a process when its temporary file exists, is not the installed
  library itself and has the installed library's content, and its module is mapped from
  that file.\<close>

definition session_open :: "xrotor_module \<Rightarrow> 'c session \<Rightarrow> 'o os \<Rightarrow> bool" where
  "session_open g self s =
     (self_lib_path self \<noteq> lib_path g
      \<and> files s (self_lib_path self) \<noteq> None
      \<and> files s (self_lib_path self) = files s (lib_path g)
      \<and> map_option lm_path (module_of self s) = Some (self_lib_path self))"

text \<open>The native calls made between two states of the process.\<close>

definition calls_between :: "'o os \<Rightarrow> 'o os \<Rightarrow> (handle \<times> native_call) list" where
  "calls_between s s' = drop (length (native_log s)) (native_log s')"

subsection \<open>A concrete installation\<close>

text \<open>A small solver, a Linux-like process with the library installed and nothing loaded,
  and the session the constructor builds there. They serve as the concrete inputs at
  which the general statements below are instantiated.\<close>

definition example_solver :: "nat solver" where
  "example_solver =
     \<lparr>sv_exports =
        [''init'', ''get_print'', ''set_print'', ''get_max_iter'', ''set_max_iter'', ''set_case'',
         ''get_performance'', ''get_number_of_stations'', ''get_station_conditions'', ''get_rms'',
         ''operate'', ''get_blade_angle_change'', ''show''],
      sv_image = \<lparr>ns_print = True, ns_max_iter = 40, ns_solver = 0\<rparr>,
      sv_init = (\<lambda>n. (0, n)),
      sv_operate = (\<lambda>mode v mode2 v2 n. (1 / 1000, n\<lparr>ns_solver := Suc (ns_solver n)\<rparr>)),
      sv_get_blade_angle_change = (\<lambda>n. (3 / 2, n)),
      sv_get_rms = (\<lambda>n. (1 / 1000, n)),
      sv_get_number_of_stations = (\<lambda>n. (3, n)),
      sv_get_station_conditions = (\<lambda>c n. (([1 / 5, 1 / 2, 9 / 10], [100000, 200000, 300000]), n)),
      sv_show = (\<lambda>n. ((), n))\<rparr>"

definition example_module :: xrotor_module where
  "example_module = \<lparr>lib_path = ''/pkg/libxrotor.so'', lib_ext = ''.so''\<rparr>"

definition example_os0 :: "nat os" where
  "example_os0 =
     \<lparr>files = [''/pkg/libxrotor.so'' \<mapsto> Shared_object],
      tmp_dir = True,
      tmp_names = [''/tmp/tmpa'', ''/tmp/tmpb''],
      modules = [],
      windll = False,
      native_log = []\<rparr>"

definition example_self :: "unit session" where
  "example_self = \<lparr>self_lib = Some 0, self_lib_path = ''/tmp/tmpa.so'', self_case = None\<rparr>"

definition example_os :: "nat os" where
  "example_os =
     \<lparr>files = [''/pkg/libxrotor.so'' \<mapsto> Shared_object, ''/tmp/tmpa.so'' \<mapsto> Shared_object],
      tmp_dir = True,
      tmp_names = [''/tmp/tmpb''],
      modules = [Some \<lparr>lm_path = ''/tmp/tmpa.so'', lm_refs = 1,
                       lm_state = \<lparr>ns_print = True, ns_max_iter = 40, ns_solver = 0\<rparr>\<rparr>],
      windll = False,
      native_log = [(0, Call_init)]\<rparr>"

text \<open>A second session constructed in the same process, and the process after that.\<close>

definition example_other :: "unit session" where
  "example_other = \<lparr>self_lib = Some 1, self_lib_path = ''/tmp/tmpb.so'', self_case = None\<rparr>"

definition example_os2 :: "nat os" where
  "example_os2 =
     \<lparr>files = [''/pkg/libxrotor.so'' \<mapsto> Shared_object, ''/tmp/tmpa.so'' \<mapsto> Shared_object,
               ''/tmp/tmpb.so'' \<mapsto> Shared_object],
      tmp_dir = True,
      tmp_names = [],
      modules = [Some \<lparr>lm_path = ''/tmp/tmpa.so'', lm_refs = 1,
                       lm_state = \<lparr>ns_print = True, ns_max_iter = 40, ns_solver = 0\<rparr>\<rparr>,
                 Some \<lparr>lm_path = ''/tmp/tmpb.so'', lm_refs = 1,
                       lm_state = \<lparr>ns_print = True, ns_max_iter = 40, ns_solver = 0\<rparr>\<rparr>],
      windll = False,
      native_log = [(0, Call_init), (1, Call_init)]\<rparr>"

text \<open>The example solver with an initialisation entry point that returns a given status.\<close>

definition reporting_solver :: "c_int \<Rightarrow> nat solver" where
  "reporting_solver status = example_solver\<lparr>sv_init := (\<lambda>n. (status, n))\<rparr>"

section \<open>Basic facts\<close>

lemma and_then_Inl: "and_then (Inl e, s) k = (Inl e, s)"
  by (simp add: and_then_def)

lemma and_then_Inr: "and_then (Inr a, s) k = k a s"
  by (simp add: and_then_def)

lemma invoke_live:
  "self_lib self = Some h \<Longrightarrow> module_at s h = Some m \<Longrightarrow>
   invoke f c self s = (Inr (fst (f (lm_state m))), native_step h m c (snd (f (lm_state m))) s)"
  by (simp add: invoke_def split: prod.splits)

lemma module_at_native_step:
  "module_at s h = Some m \<Longrightarrow> module_at (native_step h m' c n' s) h = Some (m'\<lparr>lm_state := n'\<rparr>)"
  by (auto simp: module_at_def native_step_def split: if_splits)

lemma native_log_native_step: "native_log (native_step h m c n' s) = native_log s @ [(h, c)]"
  by (simp add: native_step_def)

lemma example_live:
  "self_lib example_self = Some 0
   \<and> module_at example_os 0 =
       Some \<lparr>lm_path = ''/tmp/tmpa.so'', lm_refs = 1,
             lm_state = \<lparr>ns_print = True, ns_max_iter = 40, ns_solver = 0\<rparr>\<rparr>"
  by (simp add: example_self_def example_os_def module_at_def)

lemma c_int_value_c_int:
  "- (2 ^ 31) \<le> v \<Longrightarrow> v < 2 ^ 31 \<Longrightarrow> c_int_value (c_int v) = v"
  by (simp add: c_int_def c_int_value_def signed_take_bit_int_eq_self sint_sbintrunc')

lemma c_int_c_int_value: "c_int (c_int_value w) = w"
  by (simp add: c_int_def c_int_value_def)

lemma length_write_buffer: "length (write_buffer buf vals) = length buf"
  by (simp add: write_buffer_def)

lemma np_zeros_nonneg: "0 \<le> n \<Longrightarrow> np_zeros n = Inr (replicate (nat n) 0)"
  by (simp add: np_zeros_def)

lemma example_constructed:
  "XRotor_init example_solver example_module example_os0 = (Inr example_self, example_os)"
  by (simp add: XRotor_init_def and_then_def named_temporary_file_def copy2_def load_library_def
        entry_point_def invoke_def module_at_def native_step_def example_solver_def
        example_module_def example_os0_def example_self_def example_os_def)

lemma example_imported: "import_xrotor [''/pkg/libxrotor.so''] = Inr example_module"
  by (simp add: import_xrotor_def slice_from_def example_module_def)

subsection \<open>The constructor and the destructor, stage by stage\<close>

lemma find_module_Some:
  "find_module p ms = Some h \<Longrightarrow> h < length ms \<and> (\<exists>m. ms ! h = Some m \<and> lm_path m = p)"
proof (induction ms arbitrary: h)
  case Nil
  then show ?case by simp
next
  case (Cons e es)
  then show ?case
    by (cases e) (auto split: if_splits)
qed

text \<open>What the successful steps of the constructor leave behind.\<close>

lemma named_temporary_file_Inr:
  assumes "named_temporary_file suffix s = (Inr tmp, s1)"
  shows "files s tmp = None"
    and "\<exists>ns. s1 = s\<lparr>files := (files s)(tmp \<mapsto> Empty_file), tmp_names := ns\<rparr>"
proof -
  define d where "d = dropWhile (\<lambda>n. files s (n @ suffix) \<noteq> None) (tmp_names s)"
  from assms have dir: "tmp_dir s"
    by (cases "tmp_dir s") (simp_all add: named_temporary_file_def)
  from assms dir obtain n ns where d: "d = n # ns" and t: "tmp = n @ suffix"
    and s1: "s1 = s\<lparr>files := (files s)(tmp \<mapsto> Empty_file), tmp_names := ns\<rparr>"
    unfolding named_temporary_file_def d_def [symmetric]
    by (cases d) auto
  from d have "\<not> (files s (n @ suffix) \<noteq> None)"
    unfolding d_def dropWhile_eq_Cons_conv by (rule conjunct2)
  with t show "files s tmp = None" by simp
  from s1 show "\<exists>ns. s1 = s\<lparr>files := (files s)(tmp \<mapsto> Empty_file), tmp_names := ns\<rparr>"
    by blast
qed

lemma copy2_Inr:
  assumes "copy2 src dst s = (Inr u, s2)"
  shows "\<exists>c. files s src = Some c \<and> src \<noteq> dst \<and> s2 = s\<lparr>files := (files s)(dst \<mapsto> c)\<rparr>"
  using assms by (auto simp: copy2_def split: option.splits if_splits)

lemma load_library_found:
  "find_module p (modules s) = Some h \<Longrightarrow>
   load_library L p s =
     (Inr h, s\<lparr>modules := (modules s)
                [h := map_option (\<lambda>m. m\<lparr>lm_refs := Suc (lm_refs m)\<rparr>) (modules s ! h)]\<rparr>)"
  by (simp add: load_library_def)

lemma load_library_new:
  "find_module p (modules s) = None \<Longrightarrow>
   load_library L p s =
     (if files s p = Some Shared_object
      then (Inr (length (modules s)),
            s\<lparr>modules := modules s @ [Some \<lparr>lm_path = p, lm_refs = 1, lm_state = sv_image L\<rparr>]\<rparr>)
      else (Inl OSError, s))"
  by (simp add: load_library_def)

text \<open>What a successful load leaves behind.\<close>

lemma load_library_Inr:
  assumes "load_library L p s = (Inr h, s')"
  shows "\<exists>m. module_at s' h = Some m \<and> lm_path m = p"
    and "files s' = files s" and "windll s' = windll s" and "native_log s' = native_log s"
    and "tmp_names s' = tmp_names s"
    and "\<And>m0. module_at s h = Some m0 \<Longrightarrow> lm_path m0 = p"
    and "\<And>h'. h' \<noteq> h \<Longrightarrow> module_at s' h' = module_at s h'"
proof -
  show "\<exists>m. module_at s' h = Some m \<and> lm_path m = p"
  proof (cases "find_module p (modules s)")
    case None
    with assms show ?thesis
      by (auto simp: load_library_new module_at_def split: if_splits)
  next
    case (Some k)
    from find_module_Some [OF Some] obtain m where "k < length (modules s)"
      and "modules s ! k = Some m" and "lm_path m = p" by blast
    with assms Some show ?thesis
      by (auto simp: load_library_found module_at_def)
  qed
  show "files s' = files s" "windll s' = windll s" "native_log s' = native_log s"
      "tmp_names s' = tmp_names s"
    using assms by (auto simp: load_library_def split: option.splits if_splits)
  show "lm_path m0 = p" if "module_at s h = Some m0" for m0
  proof (cases "find_module p (modules s)")
    case None
    with assms that show ?thesis
      by (auto simp: load_library_new module_at_def split: if_splits)
  next
    case (Some k)
    from find_module_Some [OF Some] obtain m where "k < length (modules s)"
      and "modules s ! k = Some m" and "lm_path m = p" by blast
    with assms Some that show ?thesis
      by (auto simp: load_library_found module_at_def)
  qed
  show "module_at s' h' = module_at s h'" if "h' \<noteq> h" for h'
    using assms that
    by (auto simp: load_library_def module_at_def nth_append split: option.splits if_splits)
qed


lemma module_at_native_step_other:
  "h' \<noteq> h \<Longrightarrow> module_at (native_step h m c n' s) h' = module_at s h'"
  by (simp add: module_at_def native_step_def)

lemma native_step_frame:
  "files (native_step h m c n' s) = files s"
  "windll (native_step h m c n' s) = windll s"
  "tmp_names (native_step h m c n' s) = tmp_names s"
  by (simp_all add: native_step_def)

text \<open>The constructor, stage by stage.\<close>

lemma XRotor_init_no_file:
  "named_temporary_file (lib_ext g) s = (Inl e, s1) \<Longrightarrow> XRotor_init L g s = (Inl e, s1)"
  by (simp add: XRotor_init_def and_then_Inl)

lemma XRotor_init_no_copy:
  "named_temporary_file (lib_ext g) s = (Inr tmp, s1) \<Longrightarrow>
   copy2 (lib_path g) tmp s1 = (Inl e, s2) \<Longrightarrow> XRotor_init L g s = (Inl e, s2)"
  by (simp add: XRotor_init_def and_then_Inl and_then_Inr)

lemma XRotor_init_no_load:
  "named_temporary_file (lib_ext g) s = (Inr tmp, s1) \<Longrightarrow>
   copy2 (lib_path g) tmp s1 = (Inr u, s2) \<Longrightarrow>
   load_library L tmp s2 = (Inl e, s3) \<Longrightarrow> XRotor_init L g s = (Inl e, s3)"
  by (simp add: XRotor_init_def and_then_Inl and_then_Inr)

lemma XRotor_init_loaded:
  assumes "named_temporary_file (lib_ext g) s = (Inr tmp, s1)"
    and "copy2 (lib_path g) tmp s1 = (Inr u, s2)"
    and "load_library L tmp s2 = (Inr h, s3)"
  shows "XRotor_init L g s =
     (if set constructor_entry_points \<subseteq> set (sv_exports L)
      then (Inr \<lparr>self_lib = Some h, self_lib_path = tmp, self_case = None\<rparr>,
            native_step h (the (module_at s3 h)) Call_init
              (snd (sv_init L (lm_state (the (module_at s3 h))))) s3)
      else (Inl AttributeError, s3))"
proof -
  from load_library_Inr(1) [OF assms(3)] obtain m where m: "module_at s3 h = Some m"
    by blast
  show ?thesis
    by (simp add: XRotor_init_def assms and_then_Inr and_then_Inl entry_point_def
          constructor_entry_points_def invoke_def m Let_def split: prod.splits)
qed


text \<open>What a successful construction leaves behind.\<close>

lemma XRotor_init_Inr:
  assumes "XRotor_init L g s = (Inr a, s')"
  obtains tmp c h m where
    "files s tmp = None"
    and "files s (lib_path g) = Some c"
    and "a = \<lparr>self_lib = Some h, self_lib_path = tmp, self_case = None\<rparr>"
    and "files s' = (files s)(tmp \<mapsto> c)" and "windll s' = windll s"
    and "module_at s' h = Some m" and "lm_path m = tmp"
    and "\<And>m0. module_at s h = Some m0 \<Longrightarrow> lm_path m0 = tmp"
    and "\<And>h'. h' \<noteq> h \<Longrightarrow> module_at s' h' = module_at s h'"
    and "native_log s' = native_log s @ [(h, Call_init)]"
    and "set constructor_entry_points \<subseteq> set (sv_exports L)"
proof -
  obtain r1 s1 where n0: "named_temporary_file (lib_ext g) s = (r1, s1)"
    by (cases "named_temporary_file (lib_ext g) s")
  from assms n0 obtain tmp where n: "named_temporary_file (lib_ext g) s = (Inr tmp, s1)"
    by (cases r1) (simp_all add: XRotor_init_no_file)
  obtain r2 s2 where c0: "copy2 (lib_path g) tmp s1 = (r2, s2)"
    by (cases "copy2 (lib_path g) tmp s1")
  from assms n c0 obtain u where c: "copy2 (lib_path g) tmp s1 = (Inr u, s2)"
    by (cases r2) (simp_all add: XRotor_init_no_copy)
  obtain r3 s3 where l0: "load_library L tmp s2 = (r3, s3)"
    by (cases "load_library L tmp s2")
  from assms n c l0 obtain h where l: "load_library L tmp s2 = (Inr h, s3)"
    by (cases r3) (simp_all add: XRotor_init_no_load)
  from load_library_Inr(1) [OF l] obtain m where m: "module_at s3 h = Some m"
    and p: "lm_path m = tmp"
    by blast
  from assms have ep: "set constructor_entry_points \<subseteq> set (sv_exports L)"
    and a: "a = \<lparr>self_lib = Some h, self_lib_path = tmp, self_case = None\<rparr>"
    and s': "s' = native_step h m Call_init (snd (sv_init L (lm_state m))) s3"
    by (simp_all add: XRotor_init_loaded [OF n c l] m split: if_splits)
  have free: "files s tmp = None"
    by (rule named_temporary_file_Inr(1) [OF n])
  from named_temporary_file_Inr(2) [OF n] obtain ns where
    s1: "s1 = s\<lparr>files := (files s)(tmp \<mapsto> Empty_file), tmp_names := ns\<rparr>"
    by blast
  from copy2_Inr [OF c] obtain c' where src1: "files s1 (lib_path g) = Some c'"
    and ne: "lib_path g \<noteq> tmp" and s2: "s2 = s1\<lparr>files := (files s1)(tmp \<mapsto> c')\<rparr>"
    by blast
  from src1 ne have src: "files s (lib_path g) = Some c'"
    by (simp add: s1)
  have f2: "files s2 = (files s)(tmp \<mapsto> c')" and w2: "windll s2 = windll s"
    and g2: "native_log s2 = native_log s"
    and same: "module_at s2 k = module_at s k" for k
    by (simp_all add: s2 s1 module_at_def)
  show ?thesis
  proof (rule that [of tmp c' h "m\<lparr>lm_state := snd (sv_init L (lm_state m))\<rparr>"])
    show "files s tmp = None" by (rule free)
    show "files s (lib_path g) = Some c'" by (rule src)
    show "a = \<lparr>self_lib = Some h, self_lib_path = tmp, self_case = None\<rparr>" by (rule a)
    show "files s' = (files s)(tmp \<mapsto> c')"
      using load_library_Inr(2) [OF l] by (simp add: s' native_step_frame f2)
    show "windll s' = windll s"
      using load_library_Inr(3) [OF l] by (simp add: s' native_step_frame w2)
    show "module_at s' h = Some (m\<lparr>lm_state := snd (sv_init L (lm_state m))\<rparr>)"
      using m by (simp add: s' module_at_native_step)
    show "lm_path (m\<lparr>lm_state := snd (sv_init L (lm_state m))\<rparr>) = tmp"
      using p by simp
    show "lm_path m0 = tmp" if "module_at s h = Some m0" for m0
      using load_library_Inr(6) [OF l, of m0] that by (simp add: same)
    show "module_at s' h' = module_at s h'" if "h' \<noteq> h" for h'
      using load_library_Inr(7) [OF l that] that
      by (simp add: s' module_at_native_step_other same)
    show "native_log s' = native_log s @ [(h, Call_init)]"
      using load_library_Inr(4) [OF l] by (simp add: s' native_log_native_step g2)
    show "set constructor_entry_points \<subseteq> set (sv_exports L)" by (rule ep)
  qed
qed

lemma load_library_sv_init: "load_library (L\<lparr>sv_init := i\<rparr>) p s = load_library L p s"
  by (simp add: load_library_def split: option.splits)

lemma XRotor_init_missing_library:
  assumes "files s (lib_path g) = None"
  shows "isl (fst ((XRotor_init L g s :: (error + 'c session) \<times> 'o os)))"
proof -
  obtain r1 s1 where n0: "named_temporary_file (lib_ext g) s = (r1, s1)"
    by (cases "named_temporary_file (lib_ext g) s")
  show ?thesis
  proof (cases r1)
    case (Inl e)
    with n0 show ?thesis by (simp add: XRotor_init_no_file)
  next
    case (Inr tmp)
    with n0 have n: "named_temporary_file (lib_ext g) s = (Inr tmp, s1)" by simp
    from named_temporary_file_Inr(2) [OF n] obtain ns where
      s1: "s1 = s\<lparr>files := (files s)(tmp \<mapsto> Empty_file), tmp_names := ns\<rparr>"
      by blast
    from assms have "\<exists>e. copy2 (lib_path g) tmp s1 = (Inl e, s1)"
      by (simp add: copy2_def s1)
    then obtain e where cp: "copy2 (lib_path g) tmp s1 = (Inl e, s1)" by blast
    show ?thesis by (simp add: XRotor_init_no_copy [OF n cp])
  qed
qed

lemma XRotor_init_missing_entry_point:
  assumes "\<not> set constructor_entry_points \<subseteq> set (sv_exports L)"
  shows "isl (fst ((XRotor_init L g s :: (error + 'c session) \<times> 'o os)))"
proof (cases "fst ((XRotor_init L g s :: (error + 'c session) \<times> 'o os))")
  case (Inl e)
  then show ?thesis by simp
next
  case (Inr a)
  then have run: "(XRotor_init L g s :: (error + 'c session) \<times> 'o os) = (Inr a, snd ((XRotor_init L g s :: (error + 'c session) \<times> 'o os)))"
    by (metis prod.collapse)
  have "set constructor_entry_points \<subseteq> set (sv_exports L)"
    by (rule XRotor_init_Inr [OF run])
  with assms show ?thesis by simp
qed

lemma XRotor_init_not_loadable:
  assumes "files s (lib_path g) \<noteq> Some Shared_object" and "modules s = []"
  shows "isl (fst ((XRotor_init L g s :: (error + 'c session) \<times> 'o os)))"
proof (cases "fst ((XRotor_init L g s :: (error + 'c session) \<times> 'o os))")
  case (Inl e)
  then show ?thesis by simp
next
  case (Inr a)
  then have run: "(XRotor_init L g s :: (error + 'c session) \<times> 'o os) = (Inr a, snd ((XRotor_init L g s :: (error + 'c session) \<times> 'o os)))"
    by (metis prod.collapse)
  obtain r1 s1 where n0: "named_temporary_file (lib_ext g) s = (r1, s1)"
    by (cases "named_temporary_file (lib_ext g) s")
  from run n0 obtain tmp where n: "named_temporary_file (lib_ext g) s = (Inr tmp, s1)"
    by (cases r1) (simp_all add: XRotor_init_no_file)
  obtain r2 s2 where c0: "copy2 (lib_path g) tmp s1 = (r2, s2)"
    by (cases "copy2 (lib_path g) tmp s1")
  from run n c0 obtain u where c: "copy2 (lib_path g) tmp s1 = (Inr u, s2)"
    by (cases r2) (simp_all add: XRotor_init_no_copy)
  from named_temporary_file_Inr(2) [OF n] obtain ns where
    s1: "s1 = s\<lparr>files := (files s)(tmp \<mapsto> Empty_file), tmp_names := ns\<rparr>"
    by blast
  from copy2_Inr [OF c] obtain c' where src1: "files s1 (lib_path g) = Some c'"
    and ne: "lib_path g \<noteq> tmp" and s2: "s2 = s1\<lparr>files := (files s1)(tmp \<mapsto> c')\<rparr>"
    by blast
  from src1 ne assms(1) have "c' \<noteq> Shared_object"
    by (auto simp: s1)
  with assms(2) have ld: "load_library L tmp s2 = (Inl OSError, s2)"
    by (simp add: load_library_def s2 s1)
  show ?thesis
    by (simp add: XRotor_init_no_load [OF n c ld])
qed

lemma XRotor_init_sv_init:
  "fst (XRotor_init (L\<lparr>sv_init := i\<rparr>) g s :: (error + 'c session) \<times> 'o os)
     = fst (XRotor_init L g s :: (error + 'c session) \<times> 'o os)"
  by (simp add: XRotor_init_def load_library_sv_init and_then_def entry_point_def invoke_def
        Let_def split: prod.splits sum.splits option.splits)

lemma free_library_frame:
  "files (snd (free_library h s)) = files s"
  "windll (snd (free_library h s)) = windll s"
  "native_log (snd (free_library h s)) = native_log s"
  "h' \<noteq> h \<Longrightarrow> module_at (snd (free_library h s)) h' = module_at s h'"
  by (simp_all add: free_library_def module_at_def split: option.splits)

lemma free_library_result:
  "fst (free_library h s) = (if windll s then Inr () else Inl AttributeError)"
  by (simp add: free_library_def split: option.splits)

lemma operate_fst_cong:
  assumes "module_of self s = module_of self s'"
  shows "fst (operate L thrust torque pw rpm self s) = fst (operate L thrust torque pw rpm self s')"
proof (cases "self_lib self")
  case None
  then show ?thesis
    by (simp add: operate_def invoke_def and_then_def)
next
  case (Some h)
  show ?thesis
  proof (cases "module_at s h")
    case None
    with Some assms have "module_at s' h = None"
      by (simp add: module_of_def)
    with None Some show ?thesis
      by (simp add: operate_def invoke_def and_then_def)
  next
    case m: (Some m)
    with Some assms have m': "module_at s' h = Some m"
      by (simp add: module_of_def)
    from Some m m' show ?thesis
      by (simp add: operate_def invoke_live module_at_native_step and_then_Inr
            split: prod.splits)
  qed
qed

text \<open>The destructor on a session with and without its \<open>_lib\<close> attribute.\<close>

lemma XRotor_del_bound:
  assumes "self_lib self = Some h" and "files s (self_lib_path self) = Some c"
  shows "XRotor_del self s =
      (Inr (), self\<lparr>self_lib := None\<rparr>,
       (snd (free_library h s))\<lparr>files := (files s)(self_lib_path self := None)\<rparr>)"
proof -
  obtain r s1 where f: "free_library h s = (r, s1)"
    by (cases "free_library h s")
  from f have r: "r = (if windll s then Inr () else Inl AttributeError)"
    using free_library_result [of h s] by simp
  from f have s1: "files s1 = files s"
    using free_library_frame(1) [of h s] by simp
  from assms f r s1 show ?thesis
    by (simp add: XRotor_del_def os_remove_def)
qed

lemma XRotor_del_unbound:
  "self_lib self = None \<Longrightarrow> XRotor_del self s = (Inl AttributeError, self, s)"
  by (simp add: XRotor_del_def)

text \<open>Closing one session leaves every other handle and file as it was.\<close>

lemma XRotor_del_other:
  assumes "self_lib a = Some ha" and "files s (self_lib_path a) = Some c"
  shows "fst (XRotor_del a s) = Inr ()"
    and "self_lib b = Some hb \<Longrightarrow> hb \<noteq> ha \<Longrightarrow>
         module_of b (snd (snd (XRotor_del a s))) = module_of b s"
    and "p \<noteq> self_lib_path a \<Longrightarrow> files (snd (snd (XRotor_del a s))) p = files s p"
  using XRotor_del_bound [OF assms]
  by (simp_all add: module_of_def module_at_def free_library_def split: option.splits)


lemma session_open_cong:
  assumes "session_open g b s"
    and "module_of b s' = module_of b s"
    and "files s' (self_lib_path b) = files s (self_lib_path b)"
    and "files s' (lib_path g) = files s (lib_path g)"
  shows "session_open g b s'"
  using assms by (auto simp: session_open_def)

lemma session_openE:
  assumes "session_open g a s"
  obtains h m c where "self_lib a = Some h" and "module_at s h = Some m"
    and "lm_path m = self_lib_path a" and "files s (self_lib_path a) = Some c"
    and "files s (lib_path g) = Some c" and "self_lib_path a \<noteq> lib_path g"
  using assms
  by (auto simp: session_open_def module_of_def split: option.splits)

lemma example_open: "session_open example_module example_self example_os"
  by (simp add: session_open_def module_of_def module_at_def example_module_def
        example_self_def example_os_def)

lemma example_constructed_again:
  "XRotor_init example_solver example_module example_os = (Inr example_other, example_os2)"
  by (simp add: XRotor_init_def and_then_def named_temporary_file_def copy2_def load_library_def
        entry_point_def invoke_def module_at_def native_step_def example_solver_def
        example_module_def example_os_def example_other_def example_os2_def)

section \<open>Properties of \<open>operate\<close>\<close>

text \<open>
  Claim C1. The claim is that every call supplying two or more of thrust, torque and power
  raises \<open>ValueError\<close> without a native call. The source checks the three combinations
  that contain thrust and has no check for torque together with power. At
  \<open>operate(torque=1, power=2)\<close> on the constructed example session no error is raised:
  the native \<open>operate\<close> is called with mode selector 2 and the torque value, the solver's
  state changes, and its residual is returned.
\<close>

theorem operate_torque_power_accepted:
  "operate example_solver None (Some 1) (Some 2) None example_self example_os =
     (Inr (Rms (1 / 1000)),
      native_step 0 \<lparr>lm_path = ''/tmp/tmpa.so'', lm_refs = 1,
                       lm_state = \<lparr>ns_print = True, ns_max_iter = 40, ns_solver = 0\<rparr>\<rparr>
        (Call_operate 2 (C_float 1) (Some 2) None)
        \<lparr>ns_print = True, ns_max_iter = 40, ns_solver = 1\<rparr> example_os)
   \<and> native_log (snd (operate example_solver None (Some 1) (Some 2) None example_self example_os))
       = [(0, Call_init), (0, Call_operate 2 (C_float 1) (Some 2) None)]"
  by (simp add: operate_def and_then_def invoke_def module_at_def native_step_def c_int_def
        example_solver_def example_self_def example_os_def)

text \<open>
  Claim C2. On a live session \<open>operate\<close> has these cases, with the specification's
  encoding. A sole primary target \<open>k\<close> with value \<open>v\<close> makes one native call, with mode
  selector \<open>selector k\<close> (1 thrust, 2 torque, 3 power), the value, secondary selector 2 and
  a null rpm pointer, and returns the residual alone. A sole primary target together with
  rpm \<open>r\<close> makes the native call with secondary selector 1 and \<open>r\<close>, then reads the blade
  angle change, and returns the pair. Rpm alone makes one native call with mode selector 4,
  the rpm and two null pointers, returns the residual alone, and does not read the blade
  angle change.
\<close>

theorem operate_modes:
  assumes "self_lib self = Some h" and "module_at s h = Some m"
  shows
   "operate L (only Thrust k v) (only Torque k v) (only Power k v) None self s =
      (case sv_operate L (c_int (selector k)) (C_float v) (Some (c_int 2)) None (lm_state m) of
         (rms, n1) \<Rightarrow>
           (Inr (Rms rms),
            native_step h m (Call_operate (c_int (selector k)) (C_float v) (Some (c_int 2)) None) n1 s))
    \<and> operate L (only Thrust k v) (only Torque k v) (only Power k v) (Some r) self s =
      (case sv_operate L (c_int (selector k)) (C_float v) (Some (c_int 1)) (Some (C_float r))
              (lm_state m) of
         (rms, n1) \<Rightarrow>
           (case sv_get_blade_angle_change L n1 of
              (blade_angle_change, n2) \<Rightarrow>
                (Inr (Rms_and_blade_angle_change rms blade_angle_change),
                 native_step h (m\<lparr>lm_state := n1\<rparr>) Call_get_blade_angle_change n2
                   (native_step h m
                      (Call_operate (c_int (selector k)) (C_float v) (Some (c_int 1))
                         (Some (C_float r))) n1 s))))
    \<and> operate L None None None (Some r) self s =
      (case sv_operate L (c_int 4) (C_float r) None None (lm_state m) of
         (rms, n1) \<Rightarrow>
           (Inr (Rms rms), native_step h m (Call_operate (c_int 4) (C_float r) None None) n1 s))"
  using assms
  by (cases k) (simp_all add: operate_def only_def invoke_live module_at_native_step and_then_Inr split: prod.splits)

theorem operate_modes_witness:
  "self_lib example_self = Some 0
   \<and> module_at example_os 0 = Some \<lparr>lm_path = ''/tmp/tmpa.so'', lm_refs = 1,
                       lm_state = \<lparr>ns_print = True, ns_max_iter = 40, ns_solver = 0\<rparr>\<rparr>
   \<and> fst (operate example_solver None None (Some 21900) None example_self example_os) = Inr (Rms (1 / 1000))
   \<and> calls_between example_os (snd (operate example_solver None None (Some 21900) None example_self example_os))
       = [(0, Call_operate 3 (C_float 21900) (Some 2) None)]
   \<and> fst (operate example_solver None None (Some 21900) (Some 2000) example_self example_os)
       = Inr (Rms_and_blade_angle_change (1 / 1000) (3 / 2))
   \<and> calls_between example_os (snd (operate example_solver None None (Some 21900) (Some 2000) example_self example_os))
       = [(0, Call_operate 3 (C_float 21900) (Some 1) (Some (C_float 2000))), (0, Call_get_blade_angle_change)]
   \<and> fst (operate example_solver None None None (Some 2000) example_self example_os) = Inr (Rms (1 / 1000))
   \<and> calls_between example_os (snd (operate example_solver None None None (Some 2000) example_self example_os))
       = [(0, Call_operate 4 (C_float 2000) None None)]"
  using operate_modes [of example_self 0 example_os "\<lparr>lm_path = ''/tmp/tmpa.so'', lm_refs = 1,
      lm_state = \<lparr>ns_print = True, ns_max_iter = 40, ns_solver = 0\<rparr>\<rparr>" example_solver Power 21900 2000]
    example_live
  by (simp add: only_def calls_between_def native_log_native_step c_int_def example_solver_def)

text \<open>
  Claim C3. A call to \<open>operate\<close> in which thrust, torque, power and rpm are all absent
  raises \<open>ValueError\<close>, and it does so before any native call: the state of the process,
  which includes the log of native calls and the data of every loaded module, is the one
  the call started in.
\<close>

theorem operate_no_target:
  "operate L None None None None self s =
     (Inl (ValueError ''Neither thrust, torque, power, or rpm was provided.''), s)"
  by (simp add: operate_def)

text \<open>
  Claim C10. On a live session a call with torque and power both supplied and thrust
  absent behaves exactly as the call with the torque alone: it raises nothing, and its
  first native call is \<open>operate\<close> with mode selector 2 and the torque value (secondary
  selector 2 without rpm, 1 with it). The power argument has no effect.
\<close>

theorem operate_torque_and_power:
  assumes "self_lib self = Some h" and "module_at s h = Some m"
  shows
   "operate L None (Some q) (Some p) rpm self s = operate L None (Some q) None rpm self s
    \<and> \<not> isl (fst (operate L None (Some q) (Some p) rpm self s))
    \<and> take 1 (calls_between s (snd (operate L None (Some q) (Some p) rpm self s))) =
             [(h, Call_operate (c_int 2) (C_float q)
                    (Some (c_int (if rpm = None then 2 else 1))) (map_option C_float rpm))]"
  using assms
  by (cases rpm) (simp_all add: operate_def invoke_live module_at_native_step and_then_Inr calls_between_def native_log_native_step split: prod.splits)

theorem operate_torque_and_power_witness:
  "self_lib example_self = Some 0
   \<and> module_at example_os 0 = Some \<lparr>lm_path = ''/tmp/tmpa.so'', lm_refs = 1,
                       lm_state = \<lparr>ns_print = True, ns_max_iter = 40, ns_solver = 0\<rparr>\<rparr>
   \<and> operate example_solver None (Some 107) (Some 22700) None example_self example_os
       = operate example_solver None (Some 107) None None example_self example_os
   \<and> \<not> isl (fst (operate example_solver None (Some 107) (Some 22700) None example_self example_os))
   \<and> take 1 (calls_between example_os (snd (operate example_solver None (Some 107) (Some 22700) None example_self example_os)))
       = [(0, Call_operate 2 (C_float 107) (Some 2) None)]"
proof -
  have l: "self_lib example_self = Some 0"
    and m: "module_at example_os 0 = Some \<lparr>lm_path = ''/tmp/tmpa.so'', lm_refs = 1,
              lm_state = \<lparr>ns_print = True, ns_max_iter = 40, ns_solver = 0\<rparr>\<rparr>"
    using example_live by simp_all
  note t = operate_torque_and_power [OF l m, of example_solver 107 22700 None]
  have a: "operate example_solver None (Some 107) (Some 22700) None example_self example_os
       = operate example_solver None (Some 107) None None example_self example_os"
    by (rule t [THEN conjunct1])
  have b: "\<not> isl (fst (operate example_solver None (Some 107) (Some 22700) None example_self example_os))"
    by (rule t [THEN conjunct2, THEN conjunct1])
  have c: "take 1 (calls_between example_os (snd (operate example_solver None (Some 107) (Some 22700) None example_self example_os)))
       = [(0, Call_operate 2 (C_float 107) (Some 2) None)]"
    using t [THEN conjunct2, THEN conjunct2] by (simp add: c_int_def)
  show ?thesis
    by (intro conjI l m a b c)
qed

section \<open>Properties of the accessors\<close>

text \<open>
  Claim C7. On a live session, setting the maximum iteration count makes exactly one
  native call, at once, whatever the integer is: the wrapper validates nothing and only
  converts the value to a \<open>c_int\<close>. Reading the count back returns the value that was
  set, for every value a \<open>c_int\<close> holds without wrapping, the positive ones in
  particular. The print flag behaves likewise. The native cells are the ones modelled
  from the specification.
\<close>

theorem scalar_configuration_round_trip:
  assumes "self_lib self = Some h" and "module_at s h = Some m"
  shows
   "max_iter_set v self s =
      (Inr (), native_step h m (Call_set_max_iter (c_int v))
                 ((lm_state m)\<lparr>ns_max_iter := c_int v\<rparr>) s)
    \<and> (- (2 ^ 31) \<le> v \<and> v < 2 ^ 31 \<longrightarrow>
         fst (max_iter_get self (snd (max_iter_set v self s))) = Inr v)
    \<and> print_set b self s =
      (Inr (), native_step h m (Call_set_print b) ((lm_state m)\<lparr>ns_print := b\<rparr>) s)
    \<and> fst (print_get self (snd (print_set b self s))) = Inr b"
  using assms
  by (simp add: max_iter_set_def max_iter_get_def print_set_def print_get_def invoke_live
        module_at_native_step and_then_Inr native_set_max_iter_def native_get_max_iter_def
        native_set_print_def native_get_print_def c_int_value_c_int)

theorem scalar_configuration_round_trip_witness:
  "self_lib example_self = Some 0
   \<and> module_at example_os 0 = Some \<lparr>lm_path = ''/tmp/tmpa.so'', lm_refs = 1,
                       lm_state = \<lparr>ns_print = True, ns_max_iter = 40, ns_solver = 0\<rparr>\<rparr>
   \<and> - (2 ^ 31) \<le> (250 :: int) \<and> (250 :: int) < 2 ^ 31
   \<and> fst (max_iter_set 250 example_self example_os) = Inr ()
   \<and> calls_between example_os (snd (max_iter_set 250 example_self example_os))
       = [(0, Call_set_max_iter 250)]
   \<and> fst (max_iter_get example_self (snd (max_iter_set 250 example_self example_os))) = Inr 250
   \<and> fst (print_get example_self (snd (print_set False example_self example_os))) = Inr False"
proof -
  have l: "self_lib example_self = Some 0"
    and m: "module_at example_os 0 = Some \<lparr>lm_path = ''/tmp/tmpa.so'', lm_refs = 1,
              lm_state = \<lparr>ns_print = True, ns_max_iter = 40, ns_solver = 0\<rparr>\<rparr>"
    using example_live by simp_all
  note t = scalar_configuration_round_trip [OF l m, of 250 False]
  have r: "- (2 ^ 31) \<le> (250 :: int)" "(250 :: int) < 2 ^ 31"
    by simp_all
  have a: "fst (max_iter_set 250 example_self example_os) = Inr ()"
    using t [THEN conjunct1] by simp
  have b: "calls_between example_os (snd (max_iter_set 250 example_self example_os))
       = [(0, Call_set_max_iter 250)]"
    using t [THEN conjunct1] by (simp add: calls_between_def native_log_native_step c_int_def)
  have c: "fst (max_iter_get example_self (snd (max_iter_set 250 example_self example_os))) = Inr 250"
    using t [THEN conjunct2, THEN conjunct1] r by blast
  have d: "fst (print_get example_self (snd (print_set False example_self example_os))) = Inr False"
    by (rule t [THEN conjunct2, THEN conjunct2, THEN conjunct2])
  show ?thesis
    by (intro conjI l m r a b c d)
qed

text \<open>
  Claim C8. On a live session the station diagnostics pull makes two native calls: it
  first asks for the station count \<open>n\<close>, then requests \<open>n\<close> pairs into two arrays it has
  sized to \<open>n\<close>, and it returns two arrays of length exactly \<open>n\<close>, whatever the library
  writes. A count is not negative; should the library return a negative number, the
  allocation raises \<open>ValueError\<close> after the first call
  (\<open>station_conditions_negative_count\<close>).
\<close>

theorem station_conditions_two_step:
  assumes "self_lib self = Some h" and "module_at s h = Some m"
    and "sv_get_number_of_stations L (lm_state m) = (w, n1)"
    and "0 \<le> c_int_value w"
    and "sv_get_station_conditions L w n1 = (written, n2)"
  shows
   "station_conditions L self s =
      (Inr (write_buffer (replicate (nat (c_int_value w)) 0) (fst written),
            write_buffer (replicate (nat (c_int_value w)) 0) (snd written)),
       native_step h (m\<lparr>lm_state := n1\<rparr>)
         (Call_get_station_conditions w (nat (c_int_value w)) (nat (c_int_value w))) n2
         (native_step h m Call_get_number_of_stations n1 s))
    \<and> length (write_buffer (replicate (nat (c_int_value w)) 0) (fst written)) = nat (c_int_value w)
    \<and> length (write_buffer (replicate (nat (c_int_value w)) 0) (snd written)) = nat (c_int_value w)"
  using assms
  by (simp add: station_conditions_def invoke_live module_at_native_step and_then_Inr
        np_zeros_nonneg c_int_c_int_value length_write_buffer Let_def)

theorem station_conditions_two_step_witness:
  "self_lib example_self = Some 0
   \<and> module_at example_os 0 = Some \<lparr>lm_path = ''/tmp/tmpa.so'', lm_refs = 1,
                       lm_state = \<lparr>ns_print = True, ns_max_iter = 40, ns_solver = 0\<rparr>\<rparr>
   \<and> sv_get_number_of_stations example_solver \<lparr>ns_print = True, ns_max_iter = 40, ns_solver = 0\<rparr>
       = (3, \<lparr>ns_print = True, ns_max_iter = 40, ns_solver = 0\<rparr>)
   \<and> 0 \<le> c_int_value 3
   \<and> sv_get_station_conditions example_solver 3 \<lparr>ns_print = True, ns_max_iter = 40, ns_solver = 0\<rparr>
       = (([1 / 5, 1 / 2, 9 / 10], [100000, 200000, 300000]),
          \<lparr>ns_print = True, ns_max_iter = 40, ns_solver = 0\<rparr>)
   \<and> fst (station_conditions example_solver example_self example_os)
       = Inr ([1 / 5, 1 / 2, 9 / 10], [100000, 200000, 300000])
   \<and> calls_between example_os (snd (station_conditions example_solver example_self example_os))
       = [(0, Call_get_number_of_stations), (0, Call_get_station_conditions 3 3 3)]"
proof -
  have l: "self_lib example_self = Some 0"
    and m: "module_at example_os 0 = Some \<lparr>lm_path = ''/tmp/tmpa.so'', lm_refs = 1,
              lm_state = \<lparr>ns_print = True, ns_max_iter = 40, ns_solver = 0\<rparr>\<rparr>"
    using example_live by simp_all
  have n: "sv_get_number_of_stations example_solver
             (lm_state \<lparr>lm_path = ''/tmp/tmpa.so'', lm_refs = 1,
                lm_state = \<lparr>ns_print = True, ns_max_iter = 40, ns_solver = 0\<rparr>\<rparr>)
           = (3, \<lparr>ns_print = True, ns_max_iter = 40, ns_solver = 0\<rparr>)"
    by (simp add: example_solver_def)
  have p: "0 \<le> c_int_value 3"
    by (simp add: c_int_value_def)
  have w: "sv_get_station_conditions example_solver 3 \<lparr>ns_print = True, ns_max_iter = 40, ns_solver = 0\<rparr>
       = (([1 / 5, 1 / 2, 9 / 10], [100000, 200000, 300000]),
          \<lparr>ns_print = True, ns_max_iter = 40, ns_solver = 0\<rparr>)"
    by (simp add: example_solver_def)
  note t = station_conditions_two_step [OF l m n p w]
  have a: "fst (station_conditions example_solver example_self example_os)
       = Inr ([1 / 5, 1 / 2, 9 / 10], [100000, 200000, 300000])"
    using t [THEN conjunct1] by (simp add: write_buffer_def c_int_value_def)
  have b: "calls_between example_os (snd (station_conditions example_solver example_self example_os))
       = [(0, Call_get_number_of_stations), (0, Call_get_station_conditions 3 3 3)]"
    using t [THEN conjunct1]
    by (simp add: calls_between_def native_log_native_step c_int_value_def)
  show ?thesis
    using n by (intro conjI l m p w a b) simp
qed

lemma station_conditions_negative_count:
  assumes "self_lib self = Some h" and "module_at s h = Some m"
    and "sv_get_number_of_stations L (lm_state m) = (w, n1)"
    and "c_int_value w < 0"
  shows "station_conditions L self s =
      (Inl (ValueError ''negative dimensions are not allowed''),
       native_step h m Call_get_number_of_stations n1 s)"
  using assms
  by (simp add: station_conditions_def invoke_live module_at_native_step and_then_Inr and_then_Inl
        np_zeros_def Let_def)

section \<open>Properties of the session life cycle\<close>

text \<open>
  Claim C5. The claim is that construction fails whenever the artifact is missing, the
  copy fails, the load fails, or the initialisation entry point reports failure. The
  source never looks at what \<open>init()\<close> returns: with a status of 0, 1 or -1 the
  constructor returns the same session.
\<close>

theorem construction_ignores_init_status:
  "fst (sv_init (reporting_solver 0) (sv_image (reporting_solver 0))) = 0
   \<and> XRotor_init (reporting_solver 0) example_module example_os0 = (Inr example_self, example_os)
   \<and> fst (sv_init (reporting_solver 1) (sv_image (reporting_solver 1))) = 1
   \<and> XRotor_init (reporting_solver 1) example_module example_os0 = (Inr example_self, example_os)
   \<and> fst (sv_init (reporting_solver (- 1)) (sv_image (reporting_solver (- 1)))) = - 1
   \<and> XRotor_init (reporting_solver (- 1)) example_module example_os0
       = (Inr example_self, example_os)"
  by (simp add: XRotor_init_def and_then_def named_temporary_file_def copy2_def load_library_def
        entry_point_def invoke_def module_at_def native_step_def reporting_solver_def
        example_solver_def example_module_def example_os0_def example_self_def example_os_def)

text \<open>
  Claim C5, as the code has it. Importing the module raises \<open>IndexError\<close> when no
  artifact matches, so no session can be constructed. Construction raises, and yields
  no session, whenever the temporary file cannot be created, the installed library
  cannot be copied to it, the copy cannot be loaded, or the loaded library lacks one of
  the entry points the constructor resolves; the exception and the state are those of the
  step that failed, the source defines no error class of its own. In particular it
  raises when the installed library is missing, when it is not a shared object and no
  module is mapped yet, and when an entry point is not exported. When every step
  succeeds it yields the session bound to the temporary path and to the handle of the
  loaded copy. Which session or exception results does not depend on what the library's
  \<open>init\<close> does or returns.
\<close>

theorem construction_failures:
  "(let r = (XRotor_init L g s :: (error + 'c session) \<times> 'o os) in
    import_xrotor [] = Inl IndexError
    \<and> (case named_temporary_file (lib_ext g) s of
         (Inl e, s1) \<Rightarrow> r = (Inl e, s1)
       | (Inr tmp, s1) \<Rightarrow>
           (case copy2 (lib_path g) tmp s1 of
              (Inl e, s2) \<Rightarrow> r = (Inl e, s2)
            | (Inr u, s2) \<Rightarrow>
                (case load_library L tmp s2 of
                   (Inl e, s3) \<Rightarrow> r = (Inl e, s3)
                 | (Inr h, s3) \<Rightarrow>
                     if set constructor_entry_points \<subseteq> set (sv_exports L)
                     then fst r = Inr \<lparr>self_lib = Some h, self_lib_path = tmp, self_case = None\<rparr>
                     else r = (Inl AttributeError, s3))))
    \<and> (files s (lib_path g) = None \<longrightarrow> isl (fst r))
    \<and> (files s (lib_path g) \<noteq> Some Shared_object \<and> modules s = [] \<longrightarrow> isl (fst r))
    \<and> (\<not> set constructor_entry_points \<subseteq> set (sv_exports L) \<longrightarrow> isl (fst r))
    \<and> fst (XRotor_init (L\<lparr>sv_init := i\<rparr>) g s :: (error + 'c session) \<times> 'o os) = fst r)"
proof -
  have stages:
    "case named_temporary_file (lib_ext g) s of
         (Inl e, s1) \<Rightarrow> (XRotor_init L g s :: (error + 'c session) \<times> 'o os) = (Inl e, s1)
       | (Inr tmp, s1) \<Rightarrow>
           (case copy2 (lib_path g) tmp s1 of
              (Inl e, s2) \<Rightarrow> (XRotor_init L g s :: (error + 'c session) \<times> 'o os) = (Inl e, s2)
            | (Inr u, s2) \<Rightarrow>
                (case load_library L tmp s2 of
                   (Inl e, s3) \<Rightarrow>
                     (XRotor_init L g s :: (error + 'c session) \<times> 'o os) = (Inl e, s3)
                 | (Inr h, s3) \<Rightarrow>
                     if set constructor_entry_points \<subseteq> set (sv_exports L)
                     then fst (XRotor_init L g s :: (error + 'c session) \<times> 'o os)
                          = Inr \<lparr>self_lib = Some h, self_lib_path = tmp, self_case = None\<rparr>
                     else (XRotor_init L g s :: (error + 'c session) \<times> 'o os)
                          = (Inl AttributeError, s3)))"
    by (auto simp: XRotor_init_no_file XRotor_init_no_copy XRotor_init_no_load XRotor_init_loaded
          split: prod.splits sum.splits)
  have import: "import_xrotor [] = Inl IndexError"
    by (simp add: import_xrotor_def)
  have missing: "files s (lib_path g) = None \<longrightarrow>
      isl (fst (XRotor_init L g s :: (error + 'c session) \<times> 'o os))"
    by (simp add: XRotor_init_missing_library)
  have unloadable: "files s (lib_path g) \<noteq> Some Shared_object \<and> modules s = [] \<longrightarrow>
      isl (fst (XRotor_init L g s :: (error + 'c session) \<times> 'o os))"
    by (simp add: XRotor_init_not_loadable)
  have unresolved: "\<not> set constructor_entry_points \<subseteq> set (sv_exports L) \<longrightarrow>
      isl (fst (XRotor_init L g s :: (error + 'c session) \<times> 'o os))"
    by (simp add: XRotor_init_missing_entry_point)
  show ?thesis
    unfolding Let_def
    by (intro conjI import stages missing unloadable unresolved XRotor_init_sv_init)
qed

theorem construction_failures_witness:
  "files (example_os0\<lparr>files := Map.empty\<rparr>) (lib_path example_module) = None
   \<and> isl (fst (XRotor_init example_solver example_module (example_os0\<lparr>files := Map.empty\<rparr>)
                 :: (error + unit session) \<times> nat os))
   \<and> files (example_os0\<lparr>files := [''/pkg/libxrotor.so'' \<mapsto> Other_file]\<rparr>)
        (lib_path example_module) \<noteq> Some Shared_object
   \<and> modules (example_os0\<lparr>files := [''/pkg/libxrotor.so'' \<mapsto> Other_file]\<rparr>) = []
   \<and> isl (fst (XRotor_init example_solver example_module
                   (example_os0\<lparr>files := [''/pkg/libxrotor.so'' \<mapsto> Other_file]\<rparr>)
                 :: (error + unit session) \<times> nat os))
   \<and> \<not> set constructor_entry_points \<subseteq> set (sv_exports (example_solver\<lparr>sv_exports := [''init'']\<rparr>))
   \<and> isl (fst (XRotor_init (example_solver\<lparr>sv_exports := [''init'']\<rparr>) example_module example_os0
                 :: (error + unit session) \<times> nat os))
   \<and> fst (XRotor_init (example_solver\<lparr>sv_exports := [''init'']\<rparr>) example_module example_os0
               :: (error + unit session) \<times> nat os) = Inl AttributeError"
proof -
  have a: "files (example_os0\<lparr>files := Map.empty\<rparr>) (lib_path example_module) = None"
    by simp
  have b: "files (example_os0\<lparr>files := [''/pkg/libxrotor.so'' \<mapsto> Other_file]\<rparr>)
        (lib_path example_module) \<noteq> Some Shared_object
      \<and> modules (example_os0\<lparr>files := [''/pkg/libxrotor.so'' \<mapsto> Other_file]\<rparr>) = []"
    by (simp add: example_module_def example_os0_def)
  have c: "\<not> set constructor_entry_points
             \<subseteq> set (sv_exports (example_solver\<lparr>sv_exports := [''init'']\<rparr>))"
    by (simp add: constructor_entry_points_def)
  have a': "isl (fst (XRotor_init example_solver example_module
                   (example_os0\<lparr>files := Map.empty\<rparr>) :: (error + unit session) \<times> nat os))"
    by (rule construction_failures [unfolded Let_def, THEN conjunct2, THEN conjunct2,
          THEN conjunct1, THEN mp, OF a])
  have b': "isl (fst (XRotor_init example_solver example_module
                   (example_os0\<lparr>files := [''/pkg/libxrotor.so'' \<mapsto> Other_file]\<rparr>)
                 :: (error + unit session) \<times> nat os))"
    by (rule construction_failures [unfolded Let_def, THEN conjunct2, THEN conjunct2,
          THEN conjunct2, THEN conjunct1, THEN mp, OF b])
  have c': "isl (fst (XRotor_init (example_solver\<lparr>sv_exports := [''init'']\<rparr>) example_module
                   example_os0 :: (error + unit session) \<times> nat os))"
    by (rule construction_failures [unfolded Let_def, THEN conjunct2, THEN conjunct2,
          THEN conjunct2, THEN conjunct2, THEN conjunct1, THEN mp, OF c])
  have d: "fst (XRotor_init (example_solver\<lparr>sv_exports := [''init'']\<rparr>) example_module example_os0
               :: (error + unit session) \<times> nat os) = Inl AttributeError"
    by (simp add: XRotor_init_def and_then_def named_temporary_file_def copy2_def
          load_library_def entry_point_def example_solver_def example_module_def example_os0_def)
  show ?thesis
    by (intro conjI a a' b [THEN conjunct1] b [THEN conjunct2] b' c c' d)
qed

text \<open>
  Claim C4. The claim is that teardown may be invoked twice without raising. On the
  example session the first \<open>__del__\<close> succeeds and the second raises \<open>AttributeError\<close>,
  because the first deleted the attribute \<open>_lib\<close> that the second reads.
\<close>

theorem teardown_twice_raises:
  "fst (XRotor_del example_self example_os) = Inr ()
   \<and> fst (XRotor_del (fst (snd (XRotor_del example_self example_os)))
                     (snd (snd (XRotor_del example_self example_os)))) = Inl AttributeError"
  by (simp add: XRotor_del_def free_library_def os_remove_def example_self_def example_os_def)

text \<open>
  Claim C4, as the code has it. Teardown of a session whose \<open>_lib\<close> is bound and whose
  temporary copy exists does not raise: it unbinds \<open>_lib\<close>, frees the handle where
  \<open>FreeLibrary\<close> exists, and removes the temporary copy. Teardown of the session it leaves
  raises \<open>AttributeError\<close> at its first statement and changes nothing, so neither the
  handle nor the copy is released a second time.
\<close>

theorem teardown_once:
  assumes "self_lib self = Some h" and "files s (self_lib_path self) = Some c"
  shows
   "XRotor_del self s =
      (Inr (), self\<lparr>self_lib := None\<rparr>,
       (snd (free_library h s))\<lparr>files := (files s)(self_lib_path self := None)\<rparr>)
    \<and> XRotor_del (self\<lparr>self_lib := None\<rparr>) s' =
      (Inl AttributeError, self\<lparr>self_lib := None\<rparr>, s')"
  using XRotor_del_bound [OF assms] XRotor_del_unbound [of "self\<lparr>self_lib := None\<rparr>" s']
  by simp

theorem teardown_once_witness:
  "self_lib example_self = Some 0
   \<and> files example_os (self_lib_path example_self) = Some Shared_object
   \<and> fst (XRotor_del example_self example_os) = Inr ()
   \<and> self_lib (fst (snd (XRotor_del example_self example_os))) = None
   \<and> files (snd (snd (XRotor_del example_self example_os))) ''/tmp/tmpa.so'' = None
   \<and> XRotor_del (example_self\<lparr>self_lib := None\<rparr>) example_os =
      (Inl AttributeError, example_self\<lparr>self_lib := None\<rparr>, example_os)"
proof -
  have l: "self_lib example_self = Some 0"
    by (simp add: example_self_def)
  have f: "files example_os (self_lib_path example_self) = Some Shared_object"
    by (simp add: example_self_def example_os_def)
  note t = teardown_once [OF l f, of example_os]
  have p: "self_lib_path example_self = ''/tmp/tmpa.so''"
    by (simp add: example_self_def)
  have a: "fst (XRotor_del example_self example_os) = Inr ()"
    "self_lib (fst (snd (XRotor_del example_self example_os))) = None"
    "files (snd (snd (XRotor_del example_self example_os))) ''/tmp/tmpa.so'' = None"
    using t [THEN conjunct1] by (simp_all add: p)
  show ?thesis
    by (intro conjI l f a t [THEN conjunct2])
qed

text \<open>
  Claim C6. Let a session be open in a process, and let a second session be constructed
  there. Then the two temporary paths differ and the two handles differ; both sessions
  are open afterwards, each with its own temporary file, which is not the installed
  library but has its content, and with its module mapped from that file. Tearing down
  either session succeeds and leaves the other one open, and \<open>operate\<close> on the other
  one returns what it would have returned before the teardown.
\<close>

theorem session_isolation:
  assumes "session_open g a s1" and "XRotor_init L g s1 = (Inr b, s2)"
  shows
   "self_lib_path a \<noteq> self_lib_path b
    \<and> self_lib a \<noteq> self_lib b
    \<and> session_open g a s2
    \<and> session_open g b s2
    \<and> fst (XRotor_del a s2) = Inr ()
    \<and> session_open g b (snd (snd (XRotor_del a s2)))
    \<and> fst (operate L thrust torque pw rpm b (snd (snd (XRotor_del a s2))))
        = fst (operate L thrust torque pw rpm b s2)
    \<and> fst (XRotor_del b s2) = Inr ()
    \<and> session_open g a (snd (snd (XRotor_del b s2)))
    \<and> fst (operate L thrust torque pw rpm a (snd (snd (XRotor_del b s2))))
        = fst (operate L thrust torque pw rpm a s2)"
proof -
  from assms(1) obtain ha ma ca where
    sa: "self_lib a = Some ha" and a_mod: "module_at s1 ha = Some ma"
    and a_path: "lm_path ma = self_lib_path a" and a_file: "files s1 (self_lib_path a) = Some ca"
    and a_src: "files s1 (lib_path g) = Some ca" and a_lib: "self_lib_path a \<noteq> lib_path g"
    by (rule session_openE)
  obtain tb cb hb mb where
    b_free: "files s1 tb = None" and b_src: "files s1 (lib_path g) = Some cb"
    and b: "b = \<lparr>self_lib = Some hb, self_lib_path = tb, self_case = None\<rparr>"
    and b_files: "files s2 = (files s1)(tb \<mapsto> cb)" and b_win: "windll s2 = windll s1"
    and b_mod: "module_at s2 hb = Some mb" and b_path: "lm_path mb = tb"
    and b_old: "\<And>m0. module_at s1 hb = Some m0 \<Longrightarrow> lm_path m0 = tb"
    and b_others: "\<And>h'. h' \<noteq> hb \<Longrightarrow> module_at s2 h' = module_at s1 h'"
    and b_log: "native_log s2 = native_log s1 @ [(hb, Call_init)]"
    and b_syms: "set constructor_entry_points \<subseteq> set (sv_exports L)"
    by (rule XRotor_init_Inr [OF assms(2)]) (rule that; (assumption | blast))
  have sb: "self_lib b = Some hb" and pb: "self_lib_path b = tb"
    by (simp_all add: b)
  have paths: "self_lib_path a \<noteq> self_lib_path b"
    using a_file b_free by (auto simp: pb)
  have handles: "ha \<noteq> hb"
    using a_mod a_path b_old paths by (auto simp: pb)
  have b_lib: "self_lib_path b \<noteq> lib_path g"
    using b_free b_src by (auto simp: pb)
  have same: "cb = ca"
    using a_src b_src by simp
  have fa: "files s2 (self_lib_path a) = Some ca" and fb: "files s2 (self_lib_path b) = Some ca"
    and fl: "files s2 (lib_path g) = Some ca"
    using b_files paths a_file a_src b_lib same by (auto simp: pb)
  have ma: "module_at s2 ha = Some ma"
    using b_others [OF handles] a_mod by simp
  have open_a: "session_open g a s2"
    using a_lib fa fl by (simp add: session_open_def module_of_def sa ma a_path)
  have open_b: "session_open g b s2"
    using b_lib fb fl by (simp add: session_open_def module_of_def sb b_mod b_path pb)
  note close_a = XRotor_del_other [OF sa fa]
  note close_b = XRotor_del_other [OF sb fb]
  have keep_b: "module_of b (snd (snd (XRotor_del a s2))) = module_of b s2"
    using handles by (intro close_a(2) [OF sb]) simp
  have keep_a: "module_of a (snd (snd (XRotor_del b s2))) = module_of a s2"
    using handles by (intro close_b(2) [OF sa]) simp
  show ?thesis
  proof (intro conjI)
    show "self_lib_path a \<noteq> self_lib_path b" by (rule paths)
    show "self_lib a \<noteq> self_lib b" using handles by (simp add: sa sb)
    show "session_open g a s2" by (rule open_a)
    show "session_open g b s2" by (rule open_b)
    show "fst (XRotor_del a s2) = Inr ()" by (rule close_a(1))
    show "session_open g b (snd (snd (XRotor_del a s2)))"
      using paths a_lib
      by (intro session_open_cong [OF open_b keep_b] close_a(3)) simp_all
    show "fst (operate L thrust torque pw rpm b (snd (snd (XRotor_del a s2))))
        = fst (operate L thrust torque pw rpm b s2)"
      by (rule operate_fst_cong [OF keep_b])
    show "fst (XRotor_del b s2) = Inr ()" by (rule close_b(1))
    show "session_open g a (snd (snd (XRotor_del b s2)))"
      using paths b_lib
      by (intro session_open_cong [OF open_a keep_a] close_b(3)) simp_all
    show "fst (operate L thrust torque pw rpm a (snd (snd (XRotor_del b s2))))
        = fst (operate L thrust torque pw rpm a s2)"
      by (rule operate_fst_cong [OF keep_a])
  qed
qed

theorem session_isolation_witness:
  "session_open example_module example_self example_os
   \<and> XRotor_init example_solver example_module example_os = (Inr example_other, example_os2)
   \<and> self_lib_path example_self \<noteq> self_lib_path example_other
   \<and> self_lib example_self \<noteq> self_lib example_other
   \<and> session_open example_module example_self example_os2
   \<and> session_open example_module example_other example_os2
   \<and> fst (XRotor_del example_self example_os2) = Inr ()
   \<and> session_open example_module example_other (snd (snd (XRotor_del example_self example_os2)))
   \<and> fst (operate example_solver (Some 500) None None None example_other
            (snd (snd (XRotor_del example_self example_os2))))
       = fst (operate example_solver (Some 500) None None None example_other example_os2)
   \<and> fst (XRotor_del example_other example_os2) = Inr ()
   \<and> session_open example_module example_self (snd (snd (XRotor_del example_other example_os2)))
   \<and> fst (operate example_solver (Some 500) None None None example_self
            (snd (snd (XRotor_del example_other example_os2))))
       = fst (operate example_solver (Some 500) None None None example_self example_os2)"
  by (rule conjI [OF example_open conjI [OF example_constructed_again
        session_isolation [OF example_open example_constructed_again, of "Some 500" None None None]]])

end
